theory Spec2Isabelle
  imports Main
begin

section \<open>Notification feed of the home screen\<close>

text \<open>
  The \<^verbatim>\<open>Notification\<close> interface of the admin types and the handler that the home
  screen registers on the \<^verbatim>\<open>system_notifications\<close> channel. The React state
  \<^verbatim>\<open>notifications\<close> is a list; every \<^verbatim>\<open>setNotifications(prev => ...)\<close> is a
  function from the previous list to the next one.
\<close>

datatype notification_type = Info | Success | Warning | Error

record notification =
  notif_id :: string
  title :: string
  message :: string
  notif_type :: notification_type
  notif_created_at :: string
  read :: bool

text \<open>A row of \<^verbatim>\<open>system_notifications\<close> as the change feed delivers it
  (\<^verbatim>\<open>payload.new\<close>, \<^verbatim>\<open>payload.old\<close>).\<close>

record raw_notification =
  raw_id :: string
  raw_title :: string
  raw_message :: string
  priority :: string
  raw_created_at :: string

text \<open>\<^verbatim>\<open>payload.eventType\<close> with the record the handler reads for it: \<^verbatim>\<open>payload.new\<close>
  for INSERT and UPDATE, \<^verbatim>\<open>payload.old\<close> for DELETE.\<close>

datatype payload = INSERT raw_notification | UPDATE raw_notification | DELETE raw_notification

fun getNotificationType :: "string \<Rightarrow> notification_type" where
  "getNotificationType p =
     (if p = ''critical'' then Error
      else if p = ''high'' then Warning
      else Info)"

definition newNotification :: "raw_notification \<Rightarrow> notification" where
  "newNotification new =
     \<lparr> notif_id = raw_id new,
       title = raw_title new,
       message = raw_message new,
       notif_type = getNotificationType (priority new),
       notif_created_at = raw_created_at new,
       read = False \<rparr>"

fun on_change :: "payload \<Rightarrow> notification list \<Rightarrow> notification list" where
  "on_change (INSERT new) prev = newNotification new # prev"
| "on_change (UPDATE new) prev =
     map (\<lambda>notif.
            if notif_id notif = raw_id new
            then notif\<lparr> title := raw_title new,
                       message := raw_message new,
                       notif_type := getNotificationType (priority new) \<rparr>
            else notif) prev"
| "on_change (DELETE old) prev = filter (\<lambda>notif. notif_id notif \<noteq> raw_id old) prev"

definition markNotificationAsRead :: "string \<Rightarrow> notification list \<Rightarrow> notification list" where
  "markNotificationAsRead notificationId prev =
     map (\<lambda>notif. if notif_id notif = notificationId then notif\<lparr> read := True \<rparr> else notif) prev"

text \<open>The initial load \<^verbatim>\<open>fetchNotifications\<close> maps every fetched row like an insert.\<close>

definition mappedNotifications :: "raw_notification list \<Rightarrow> notification list" where
  "mappedNotifications data = map newNotification data"

section \<open>Redemption requests, point balances and the transaction ledger\<close>

text \<open>
  The rows the transactions screen reads and writes: \<^verbatim>\<open>redemption_requests\<close>,
  \<^verbatim>\<open>user_profiles\<close>, \<^verbatim>\<open>transactions\<close> and \<^verbatim>\<open>admins\<close>. Only the columns the handler
  touches are kept. Points are JavaScript numbers holding integers; they are modelled as
  \<^typ>\<open>int\<close>. \<^verbatim>\<open>cash_amount\<close> is a floating-point number that the handler only renders
  with \<^verbatim>\<open>toFixed(2)\<close>: its type is left as a parameter \<^typ>\<open>'c\<close> and the rendering is
  a parameter of the environment.
\<close>

datatype request_status = Pending | Processing | Completed | Rejected

datatype transaction_type = Earned | Redeemed | Bonus

datatype transaction_status = TxPending | TxCompleted | TxFailed

record 'c redemption_request =
  req_id :: string
  req_user_id :: string
  points_redeemed :: int
  cash_amount :: 'c
  req_status :: request_status
  processed_at :: "string option"
  req_updated_at :: string

record user_profile =
  prof_user_id :: string
  available_points :: int
  redeemed_points :: int
  total_points :: int
  prof_updated_at :: string

record transaction =
  tx_id :: string
  tx_user_id :: string
  tx_type :: transaction_type
  amount :: int
  description :: string
  tx_status :: transaction_status
  reference_id :: "string option"
  tx_created_at :: string
  tx_updated_at :: string

record 'c store =
  redemption_requests :: "'c redemption_request list"
  user_profiles :: "user_profile list"
  transactions :: "transaction list"
  admins :: "string list"

text \<open>The second parameter of \<^verbatim>\<open>handleRequestAction\<close>:
  \<^verbatim>\<open>'pending' | 'completed' | 'rejected'\<close>. It is written to the \<^verbatim>\<open>status\<close> column as it is.\<close>

datatype action = ActPending | ActCompleted | ActRejected

fun status_of :: "action \<Rightarrow> request_status" where
  "status_of ActPending = Pending"
| "status_of ActCompleted = Completed"
| "status_of ActRejected = Rejected"

subsection \<open>The environment of one call\<close>

text \<open>
  Every request to the hosted store can come back with an error. \<open>fails\<close> says, for each
  request the code makes, whether it does in this call; a failed request leaves the table
  as it was. \<open>clock\<close> is the value of \<^verbatim>\<open>new Date().toISOString()\<close> at the source line
  given. \<open>new_transaction_id\<close> is the key the store gives an inserted ledger row, and
  \<open>auth_user\<close> the signed-in user id of the session (\<^verbatim>\<open>supabase.auth.getUser()\<close>).
\<close>

datatype call_site =
    UpdateRequest
  | SelectProfile
  | UpdatePoints
  | CheckTransaction
  | UpdateTransaction
  | InsertTransaction
  | RejectTransaction
  | SelectAdmin
  | Refresh

record 'c env =
  fails :: "call_site \<Rightarrow> bool"
  clock :: "nat \<Rightarrow> string"
  toFixed2 :: "'c \<Rightarrow> string"
  new_transaction_id :: string
  auth_user :: "string option"

text \<open>What the handler throws: the error object of a failed store request, or the
  \<^verbatim>\<open>Error\<close> of line 234 with the available and the required points.\<close>

datatype error = StoreError call_site | InsufficientPoints int int

text \<open>\<^verbatim>\<open>Alert.alert('Success', ...)\<close> of line 350 and \<^verbatim>\<open>Alert.alert('Error', ...)\<close> of
  line 360, with the action and the error they interpolate.\<close>

datatype alert = SuccessAlert action | ErrorAlert action error

text \<open>The store together with what the user and the console see of the screen:
  the \<^verbatim>\<open>processingAction\<close> and \<^verbatim>\<open>modalVisible\<close> flags, the alerts raised and the
  \<^verbatim>\<open>console.error\<close> lines written by \<^verbatim>\<open>handleRequestAction\<close>. The two on-screen lists
  are not modelled.\<close>

record 'c world =
  db :: "'c store"
  processingAction :: bool
  modalVisible :: bool
  alerts :: "alert list"
  console_errors :: "error list"

subsection \<open>Store requests as the client library answers them\<close>

text \<open>\<^verbatim>\<open>.single()\<close> returns the row when the query matches exactly one, and otherwise no
  data and the error \<^verbatim>\<open>PGRST116\<close>.\<close>

fun single :: "'a list \<Rightarrow> 'a option" where
  "single [r] = Some r"
| "single _ = None"

text \<open>\<^verbatim>\<open>.update(f).eq(...)\<close> rewrites every matching row and is no error when none matches.\<close>

definition update_where :: "('a \<Rightarrow> bool) \<Rightarrow> ('a \<Rightarrow> 'a) \<Rightarrow> 'a list \<Rightarrow> 'a list" where
  "update_where P f rows = map (\<lambda>r. if P r then f r else r) rows"

definition log_error :: "error \<Rightarrow> 'c world \<Rightarrow> 'c world" where
  "log_error e w = w\<lparr> console_errors := console_errors w @ [e] \<rparr>"

subsection \<open>\<^verbatim>\<open>checkAdminStatus\<close>\<close>

definition checkAdminStatus :: "'c env \<Rightarrow> 'c store \<Rightarrow> bool" where
  "checkAdminStatus env d =
     (case auth_user env of
        None \<Rightarrow> False
      | Some user \<Rightarrow>
          if fails env SelectAdmin then False
          else (case single (filter (\<lambda>a. a = user) (admins d)) of
                  None \<Rightarrow> False
                | Some data \<Rightarrow> True))"

subsection \<open>\<^verbatim>\<open>handleRequestAction\<close>\<close>

text \<open>
  The body of the \<^verbatim>\<open>try\<close> block is split at its comments. Each step returns the world
  it leaves and the error it throws, if any: what was written before a \<^verbatim>\<open>throw\<close> stays
  written.
\<close>

text \<open>Lines 195 to 210: the status is written first, for every action.\<close>

definition update_request ::
  "'c env \<Rightarrow> 'c redemption_request \<Rightarrow> action \<Rightarrow> 'c world \<Rightarrow> 'c world \<times> error option" where
  "update_request env request a w =
     (if fails env UpdateRequest then (w, Some (StoreError UpdateRequest))
      else
        (w\<lparr> db := (db w)\<lparr> redemption_requests :=
              update_where (\<lambda>r. req_id r = req_id request)
                (\<lambda>r. r\<lparr> req_status := status_of a,
                         req_updated_at := clock env 197,
                         processed_at :=
                           (if a \<noteq> ActPending then Some (clock env 201) else processed_at r) \<rparr>)
                (redemption_requests (db w)) \<rparr> \<rparr>,
         None))"

text \<open>Lines 217 to 259, steps 1 to 4 of the critical section: read the profile again,
  compare, compute, write the points.\<close>

definition select_profile :: "'c redemption_request \<Rightarrow> 'c store \<Rightarrow> user_profile option" where
  "select_profile request d =
     single (filter (\<lambda>p. prof_user_id p = req_user_id request) (user_profiles d))"

definition deduct_points ::
  "'c env \<Rightarrow> 'c redemption_request \<Rightarrow> 'c world \<Rightarrow> 'c world \<times> error option" where
  "deduct_points env request w =
     (if fails env SelectProfile
      then (log_error (StoreError SelectProfile) w, Some (StoreError SelectProfile))
      else
        (case select_profile request (db w) of
           None \<Rightarrow> (log_error (StoreError SelectProfile) w, Some (StoreError SelectProfile))
         | Some currentProfile \<Rightarrow>
             if available_points currentProfile < points_redeemed request
             then (w, Some (InsufficientPoints (available_points currentProfile)
                                               (points_redeemed request)))
             else
               let newAvailablePoints = available_points currentProfile - points_redeemed request;
                   newRedeemedPoints = redeemed_points currentProfile + points_redeemed request
               in if fails env UpdatePoints
                  then (log_error (StoreError UpdatePoints) w, Some (StoreError UpdatePoints))
                  else
                    (w\<lparr> db := (db w)\<lparr> user_profiles :=
                          update_where (\<lambda>p. prof_user_id p = req_user_id request)
                            (\<lambda>p. p\<lparr> available_points := newAvailablePoints,
                                     redeemed_points := newRedeemedPoints,
                                     prof_updated_at := clock env 250 \<rparr>)
                            (user_profiles (db w)) \<rparr> \<rparr>,
                     None)))"

text \<open>The peso sign of the description, as its three UTF-8 bytes.\<close>

definition peso :: string where
  "peso = [CHR 0xE2, CHR 0x82, CHR 0xB1]"

definition completed_description :: "'c env \<Rightarrow> 'c redemption_request \<Rightarrow> string" where
  "completed_description env request =
     ''GCash redemption - '' @ peso @ toFixed2 env (cash_amount request) @ '' (Completed)''"

definition rejected_description :: "'c env \<Rightarrow> 'c redemption_request \<Rightarrow> string" where
  "rejected_description env request =
     ''GCash redemption - '' @ peso @ toFixed2 env (cash_amount request) @ '' (Rejected)''"

text \<open>The rows the ledger lookups select: \<^verbatim>\<open>.eq('reference_id', request.id).eq('type', 'redeemed')\<close>.\<close>

definition matches :: "'c redemption_request \<Rightarrow> transaction \<Rightarrow> bool" where
  "matches request t \<longleftrightarrow> reference_id t = Some (req_id request) \<and> tx_type t = Redeemed"

text \<open>Lines 261 to 308, step 5: look the ledger row up, update it or insert it. A failed
  lookup is thrown unless it is \<^verbatim>\<open>PGRST116\<close>; a failed update or insert is written to the
  console and not thrown.\<close>

definition record_transaction ::
  "'c env \<Rightarrow> 'c redemption_request \<Rightarrow> 'c world \<Rightarrow> 'c world \<times> error option" where
  "record_transaction env request w =
     (if fails env CheckTransaction
      then (log_error (StoreError CheckTransaction) w, Some (StoreError CheckTransaction))
      else
        (case single (filter (matches request) (transactions (db w))) of
           Some existingTransaction \<Rightarrow>
             if fails env UpdateTransaction
             then (log_error (StoreError UpdateTransaction) w, None)
             else
               (w\<lparr> db := (db w)\<lparr> transactions :=
                     update_where (\<lambda>t. tx_id t = tx_id existingTransaction)
                       (\<lambda>t. t\<lparr> tx_status := TxCompleted,
                                description := completed_description env request,
                                tx_updated_at := clock env 281 \<rparr>)
                       (transactions (db w)) \<rparr> \<rparr>,
                None)
         | None \<Rightarrow>
             if fails env InsertTransaction
             then (log_error (StoreError InsertTransaction) w, None)
             else
               (w\<lparr> db := (db w)\<lparr> transactions :=
                     transactions (db w) @
                       [\<lparr> tx_id = new_transaction_id env,
                          tx_user_id = req_user_id request,
                          tx_type = Redeemed,
                          amount = - points_redeemed request,
                          description = completed_description env request,
                          tx_status = TxCompleted,
                          reference_id = Some (req_id request),
                          tx_created_at = clock env 300,
                          tx_updated_at = clock env 301 \<rparr>] \<rparr> \<rparr>,
                None)))"

text \<open>Lines 312 to 339: on rejection every matching ledger row is marked failed; that
  none matched is a console warning only.\<close>

definition reject_transaction ::
  "'c env \<Rightarrow> 'c redemption_request \<Rightarrow> 'c world \<Rightarrow> 'c world \<times> error option" where
  "reject_transaction env request w =
     (if fails env RejectTransaction
      then (log_error (StoreError RejectTransaction) w, Some (StoreError RejectTransaction))
      else
        (w\<lparr> db := (db w)\<lparr> transactions :=
              update_where (matches request)
                (\<lambda>t. t\<lparr> tx_status := TxFailed,
                         description := rejected_description env request,
                         tx_updated_at := clock env 321 \<rparr>)
                (transactions (db w)) \<rparr> \<rparr>,
         None))"

text \<open>The \<^verbatim>\<open>try\<close> block up to line 339.\<close>

definition try_block ::
  "'c env \<Rightarrow> 'c redemption_request \<Rightarrow> action \<Rightarrow> 'c world \<Rightarrow> 'c world \<times> error option" where
  "try_block env request a w =
     (case update_request env request a w of
        (w1, Some e) \<Rightarrow> (w1, Some e)
      | (w1, None) \<Rightarrow>
          if a = ActCompleted then
            (case deduct_points env request w1 of
               (w2, Some e) \<Rightarrow> (w2, Some e)
             | (w2, None) \<Rightarrow> record_transaction env request w2)
          else if a = ActRejected then reject_transaction env request w1
          else (w1, None))"

text \<open>
  The whole handler. After the \<^verbatim>\<open>try\<close> block it raises the success alert and closes the
  modal, then fetches both lists again (line 357); the fetch writes nothing to the store,
  and when it throws (\<open>fails env Refresh\<close>) the \<^verbatim>\<open>catch\<close> raises an error alert after
  the success alert. \<^verbatim>\<open>finally\<close> clears the flag.
\<close>

definition handleRequestAction ::
  "'c env \<Rightarrow> 'c redemption_request \<Rightarrow> action \<Rightarrow> 'c world \<Rightarrow> 'c world" where
  "handleRequestAction env request a w =
     (if processingAction w then w
      else
        (case try_block env request a (w\<lparr> processingAction := True \<rparr>) of
           (w1, Some e) \<Rightarrow>
             (log_error e w1)\<lparr> alerts := alerts w1 @ [ErrorAlert a e],
                               processingAction := False \<rparr>
         | (w1, None) \<Rightarrow>
             let w2 = w1\<lparr> alerts := alerts w1 @ [SuccessAlert a], modalVisible := False \<rparr>
             in if fails env Refresh
                then (log_error (StoreError Refresh) w2)
                       \<lparr> alerts := alerts w2 @ [ErrorAlert a (StoreError Refresh)],
                         processingAction := False \<rparr>
                else w2\<lparr> processingAction := False \<rparr>))"


section \<open>Notions used by the properties\<close>

text \<open>The alerts a call has added to those already on the screen.\<close>

definition new_alerts :: "'c world \<Rightarrow> 'c world \<Rightarrow> alert list" where
  "new_alerts w w' = drop (length (alerts w)) (alerts w')"

text \<open>No two redeemed ledger rows point back to the same request.\<close>

definition ledger_unique :: "transaction list \<Rightarrow> bool" where
  "ledger_unique txs \<longleftrightarrow>
     distinct (map reference_id
       (filter (\<lambda>t. tx_type t = Redeemed \<and> reference_id t \<noteq> None) txs))"


text \<open>A sequence of calls of the handler, each in its own environment.\<close>

fun run :: "('c env \<times> 'c redemption_request \<times> action) list \<Rightarrow> 'c world \<Rightarrow> 'c world" where
  "run [] w = w"
| "run ((env, request, a) # calls) w = run calls (handleRequestAction env request a w)"



subsection \<open>Scenarios\<close>

text \<open>An environment in which no store request fails, a pending request for 500 points
  of user \<open>u1\<close>, and a world holding that request, the balance of \<open>u1\<close> and a ledger.\<close>

definition env_ok :: "nat env" where
  "env_ok =
     \<lparr> fails = (\<lambda>c. False),
       clock = (\<lambda>l. ''2025-06-01T08:00:00.000Z''),
       toFixed2 = (\<lambda>c. ''250.00''),
       new_transaction_id = ''t9'',
       auth_user = Some ''admin1'' \<rparr>"

text \<open>The same environment with exactly one store request failing, and the one of a
  signed-in user who is not in the \<^verbatim>\<open>admins\<close> table.\<close>

definition env_failing :: "call_site \<Rightarrow> nat env" where
  "env_failing c = env_ok\<lparr> fails := (\<lambda>s. s = c) \<rparr>"

definition env_visitor :: "nat env" where
  "env_visitor = env_ok\<lparr> auth_user := Some ''visitor'' \<rparr>"

definition request_500 :: "nat redemption_request" where
  "request_500 =
     \<lparr> req_id = ''r1'', req_user_id = ''u1'', points_redeemed = 500, cash_amount = 250,
       req_status = Pending, processed_at = None, req_updated_at = ''2025-05-31'' \<rparr>"

definition world_with :: "int \<Rightarrow> transaction list \<Rightarrow> nat world" where
  "world_with available txs =
     \<lparr> db = \<lparr> redemption_requests = [request_500],
              user_profiles =
                [\<lparr> prof_user_id = ''u1'', available_points = available, redeemed_points = 0,
                   total_points = available, prof_updated_at = ''2025-05-31'' \<rparr>],
              transactions = txs,
              admins = [''admin1''] \<rparr>,
       processingAction = False,
       modalVisible = True,
       alerts = [],
       console_errors = [] \<rparr>"

definition pending_entry :: "int \<Rightarrow> transaction" where
  "pending_entry n =
     \<lparr> tx_id = ''t1'', tx_user_id = ''u1'', tx_type = Redeemed, amount = n,
       description = ''GCash redemption'', tx_status = TxPending,
       reference_id = Some ''r1'', tx_created_at = ''2025-05-31'',
       tx_updated_at = ''2025-05-31'' \<rparr>"

definition notif_A :: raw_notification where
  "notif_A =
     \<lparr> raw_id = ''A'', raw_title = ''Maintenance'', raw_message = ''Tonight'',
       priority = ''high'', raw_created_at = ''2025-06-01'' \<rparr>"

section \<open>Auxiliary facts\<close>

subsection \<open>Table requests\<close>


lemma single_None_iff: "single xs = None \<longleftrightarrow> length xs \<noteq> 1"
  by (cases xs rule: single.cases) auto

lemma filter_update_where:
  "(\<And>r. Q (f r) = Q r) \<Longrightarrow> filter Q (update_where P f xs) = update_where P f (filter Q xs)"
  by (induction xs) (auto simp: update_where_def)

lemma map_update_where:
  "(\<And>r. g (f r) = g r) \<Longrightarrow> map g (update_where P f xs) = map g xs"
  by (induction xs) (auto simp: update_where_def)

lemma update_where_all: "(\<And>r. r \<in> set xs \<Longrightarrow> P r) \<Longrightarrow> update_where P f xs = map f xs"
  by (induction xs) (auto simp: update_where_def)

lemma update_where_none: "(\<And>r. r \<in> set xs \<Longrightarrow> \<not> P r) \<Longrightarrow> update_where P f xs = xs"
  by (induction xs) (auto simp: update_where_def)

subsection \<open>What each step leaves untouched\<close>

lemma update_request_tables:
  "user_profiles (db (fst (update_request env request a w))) = user_profiles (db w)"
  "transactions (db (fst (update_request env request a w))) = transactions (db w)"
  "alerts (fst (update_request env request a w)) = alerts w"
  "processingAction (fst (update_request env request a w)) = processingAction w"
  by (simp_all add: update_request_def)

lemma deduct_points_tables:
  "transactions (db (fst (deduct_points env request w))) = transactions (db w)"
  "redemption_requests (db (fst (deduct_points env request w))) = redemption_requests (db w)"
  "alerts (fst (deduct_points env request w)) = alerts w"
  by (simp_all add: deduct_points_def log_error_def Let_def split: option.splits)

lemma record_transaction_tables:
  "user_profiles (db (fst (record_transaction env request w))) = user_profiles (db w)"
  "redemption_requests (db (fst (record_transaction env request w))) = redemption_requests (db w)"
  "alerts (fst (record_transaction env request w)) = alerts w"
  by (simp_all add: record_transaction_def log_error_def split: option.splits)

lemma reject_transaction_tables:
  "user_profiles (db (fst (reject_transaction env request w))) = user_profiles (db w)"
  "redemption_requests (db (fst (reject_transaction env request w))) = redemption_requests (db w)"
  "alerts (fst (reject_transaction env request w)) = alerts w"
  by (simp_all add: reject_transaction_def log_error_def)

subsection \<open>The handler in terms of its try block\<close>

lemma handler_db:
  "\<not> processingAction w \<Longrightarrow>
   db (handleRequestAction env request a w) =
   db (fst (try_block env request a (w\<lparr>processingAction := True\<rparr>)))"
  by (simp add: handleRequestAction_def log_error_def Let_def split: prod.splits option.splits)

lemma handler_busy: "processingAction w \<Longrightarrow> handleRequestAction env request a w = w"
  by (simp add: handleRequestAction_def)

lemma try_block_alt:
  "try_block env request a w =
     (if snd (update_request env request a w) \<noteq> None then update_request env request a w
      else if a = ActCompleted then
        (if snd (deduct_points env request (fst (update_request env request a w))) \<noteq> None
         then deduct_points env request (fst (update_request env request a w))
         else record_transaction env request
                (fst (deduct_points env request (fst (update_request env request a w)))))
      else if a = ActRejected then reject_transaction env request (fst (update_request env request a w))
      else (fst (update_request env request a w), None))"
  by (auto simp: try_block_def split: prod.splits option.splits)

lemma try_block_alerts: "alerts (fst (try_block env request a w)) = alerts w"
  by (simp add: try_block_alt update_request_tables deduct_points_tables
        record_transaction_tables reject_transaction_tables)

lemma handler_alerts:
  "\<not> processingAction w \<Longrightarrow>
   new_alerts w (handleRequestAction env request a w) =
     (case snd (try_block env request a (w\<lparr>processingAction := True\<rparr>)) of
        Some e \<Rightarrow> [ErrorAlert a e]
      | None \<Rightarrow> if fails env Refresh then [SuccessAlert a, ErrorAlert a (StoreError Refresh)]
                else [SuccessAlert a])"
  using try_block_alerts[of env request a "w\<lparr>processingAction := True\<rparr>"]
  by (auto simp: handleRequestAction_def new_alerts_def log_error_def Let_def
       split: prod.splits option.splits)

subsection \<open>The steps of a completion\<close>




lemma matches_amend [simp]:
  "matches request (t\<lparr> tx_status := s, description := d, tx_updated_at := u \<rparr>) = matches request t"
  by (simp add: matches_def)

lemma record_transaction_found:
  assumes "\<not> fails env CheckTransaction" "\<not> fails env UpdateTransaction"
      and "filter (matches request) (transactions (db w)) = [t]"
  shows "filter (matches request) (transactions (db (fst (record_transaction env request w)))) =
           [t\<lparr> tx_status := TxCompleted, description := completed_description env request,
                tx_updated_at := clock env 281 \<rparr>]"
    and "map tx_id (transactions (db (fst (record_transaction env request w)))) =
           map tx_id (transactions (db w))"
  using assms
  by (simp_all add: record_transaction_def filter_update_where map_update_where)
     (simp_all add: update_where_def)

lemma record_transaction_absent:
  assumes "\<not> fails env CheckTransaction" "\<not> fails env InsertTransaction"
      and "filter (matches request) (transactions (db w)) = []"
  shows "transactions (db (fst (record_transaction env request w))) =
           transactions (db w) @
             [\<lparr> tx_id = new_transaction_id env, tx_user_id = req_user_id request,
                tx_type = Redeemed, amount = - points_redeemed request,
                description = completed_description env request, tx_status = TxCompleted,
                reference_id = Some (req_id request), tx_created_at = clock env 300,
                tx_updated_at = clock env 301 \<rparr>]"
  using assms by (simp add: record_transaction_def)


subsection \<open>Uniqueness in the ledger\<close>

lemma distinct_map_filter_le1:
  "distinct (map f xs) \<Longrightarrow> length (filter (\<lambda>x. f x = k) xs) \<le> 1"
proof (induction xs)
  case Nil
  then show ?case by simp
next
  case (Cons x xs)
  show ?case
  proof (cases "f x = k")
    case True
    with Cons.prems have "\<forall>y \<in> set xs. f y \<noteq> k" by (auto simp: image_iff)
    then have "filter (\<lambda>x. f x = k) xs = []" by (simp add: filter_empty_conv)
    with True show ?thesis by simp
  next
    case False
    with Cons show ?thesis by simp
  qed
qed

lemma matches_filter:
  "filter (matches request) txs =
   filter (\<lambda>t. reference_id t = Some (req_id request))
     (filter (\<lambda>t. tx_type t = Redeemed \<and> reference_id t \<noteq> None) txs)"
  by (induction txs) (auto simp: matches_def)

lemma ledger_unique_matches_le1:
  "ledger_unique txs \<Longrightarrow> length (filter (matches request) txs) \<le> 1"
  unfolding ledger_unique_def matches_filter by (rule distinct_map_filter_le1)

lemma ledger_unique_update_where:
  assumes "\<And>t. reference_id (f t) = reference_id t" "\<And>t. tx_type (f t) = tx_type t"
  shows "ledger_unique (update_where P f txs) = ledger_unique txs"
proof -
  have "map reference_id (filter (\<lambda>t. tx_type t = Redeemed \<and> reference_id t \<noteq> None) (update_where P f txs))
      = map reference_id (filter (\<lambda>t. tx_type t = Redeemed \<and> reference_id t \<noteq> None) txs)"
    by (induction txs) (auto simp: update_where_def assms)
  then show ?thesis by (simp add: ledger_unique_def)
qed

lemma ledger_unique_insert:
  assumes "ledger_unique txs" "filter (matches request) txs = []" "reference_id n = Some (req_id request)"
  shows "ledger_unique (txs @ [n])"
proof -
  have "Some (req_id request) \<notin> reference_id ` set (filter (\<lambda>t. tx_type t = Redeemed \<and> reference_id t \<noteq> None) txs)"
    using assms(2) by (auto simp: filter_empty_conv matches_def)
  with assms(1,3) show ?thesis by (auto simp: ledger_unique_def)
qed

lemma record_transaction_unique:
  assumes "ledger_unique (transactions (db w))"
  shows "ledger_unique (transactions (db (fst (record_transaction env request w))))"
proof (cases "single (filter (matches request) (transactions (db w)))")
  case None
  with ledger_unique_matches_le1[OF assms, of request]
  have "filter (matches request) (transactions (db w)) = []"
    by (cases "filter (matches request) (transactions (db w))") (auto simp: single_None_iff)
  with None assms show ?thesis
    by (auto simp: record_transaction_def log_error_def intro: ledger_unique_insert)
next
  case (Some t)
  with assms show ?thesis
    by (simp add: record_transaction_def log_error_def ledger_unique_update_where)
qed

lemma handler_unique:
  assumes "ledger_unique (transactions (db w))"
  shows "ledger_unique (transactions (db (handleRequestAction env request a w)))"
proof (cases "processingAction w")
  case True
  with assms show ?thesis by (simp add: handler_busy)
next
  case False
  have r: "ledger_unique (transactions (db (fst (reject_transaction env request v))))"
    if "ledger_unique (transactions (db v))" for v :: "'a world"
    using that by (simp add: reject_transaction_def log_error_def ledger_unique_update_where)
  show ?thesis using assms False
    by (simp add: handler_db try_block_alt update_request_tables deduct_points_tables
          record_transaction_unique r)
qed

lemma run_unique:
  "ledger_unique (transactions (db w)) \<Longrightarrow> ledger_unique (transactions (db (run calls w)))"
proof (induction calls arbitrary: w)
  case Nil
  then show ?case by simp
next
  case (Cons c calls)
  obtain env request a where c: "c = (env, request, a)" by (cases c)
  show ?case unfolding c run.simps
    by (rule Cons.IH) (rule handler_unique[OF Cons.prems])
qed

subsection \<open>Independence from the request status\<close>

lemma matches_status [simp]: "matches (request\<lparr> req_status := s \<rparr>) = matches request"
  by (rule ext) (simp add: matches_def)

lemma steps_request_status [simp]:
  "update_request env (request\<lparr> req_status := s \<rparr>) a w = update_request env request a w"
  "deduct_points env (request\<lparr> req_status := s \<rparr>) w = deduct_points env request w"
  "record_transaction env (request\<lparr> req_status := s \<rparr>) w = record_transaction env request w"
  "reject_transaction env (request\<lparr> req_status := s \<rparr>) w = reject_transaction env request w"
  by (simp_all add: update_request_def deduct_points_def record_transaction_def
        reject_transaction_def select_profile_def completed_description_def
        rejected_description_def Let_def split: option.splits)







subsection \<open>Unfolding for the scenarios\<close>

lemmas eval_defs = handleRequestAction_def try_block_def update_request_def deduct_points_def
  record_transaction_def reject_transaction_def select_profile_def log_error_def
  update_where_def matches_def new_alerts_def
  env_ok_def env_failing_def env_visitor_def request_500_def world_with_def pending_entry_def

section \<open>The claims\<close>

text \<open>
  Claim C1. A completion attempt that finds fewer available points than the request asks
  for should fail and leave the request and the balance as they were. The handler writes
  the status before it reads the balance (lines 195 to 210 come before line 233), so at
  available = 100 and 500 points requested the error alert is raised and the balance is
  kept, but the stored request is already \<open>Completed\<close> with \<open>processed_at\<close> set.
\<close>

theorem insufficient_balance_request_already_written:
  "alerts (handleRequestAction env_ok request_500 ActCompleted (world_with 100 [])) =
     [ErrorAlert ActCompleted (InsufficientPoints 100 500)]
   \<and> user_profiles (db (handleRequestAction env_ok request_500 ActCompleted (world_with 100 []))) =
       user_profiles (db (world_with 100 []))
   \<and> map req_status (redemption_requests (db (world_with 100 []))) = [Pending]
   \<and> map processed_at (redemption_requests (db (world_with 100 []))) = [None]
   \<and> map req_status (redemption_requests
        (db (handleRequestAction env_ok request_500 ActCompleted (world_with 100 [])))) = [Completed]
   \<and> map processed_at (redemption_requests
        (db (handleRequestAction env_ok request_500 ActCompleted (world_with 100 [])))) =
       [Some (clock env_ok 201)]"
  by (simp add: eval_defs)







text \<open>
  Claim C4. Starting from a ledger with at most one redeemed row per request, every sequence
  of calls of the handler, replays included, leaves such a ledger, so at most one redeemed
  row points to any request. The write of step 5 looks the row up first: when there is
  none it appends one new row for the request; when there is one it rewrites status,
  description and \<open>updated_at\<close> of that row and leaves the order of the rows as it was.
\<close>

theorem ledger_write_is_upsert:
  assumes "ledger_unique (transactions (db w))"
  shows "ledger_unique (transactions (db (run calls w)))
       \<and> length (filter (matches request) (transactions (db (run calls w)))) \<le> 1
       \<and> (\<not> fails env CheckTransaction \<longrightarrow>
            (case filter (matches request) (transactions (db w)) of
               [] \<Rightarrow>
                 \<not> fails env InsertTransaction \<longrightarrow>
                 transactions (db (fst (record_transaction env request w))) =
                   transactions (db w) @
                     [\<lparr> tx_id = new_transaction_id env, tx_user_id = req_user_id request,
                        tx_type = Redeemed, amount = - points_redeemed request,
                        description = completed_description env request,
                        tx_status = TxCompleted, reference_id = Some (req_id request),
                        tx_created_at = clock env 300, tx_updated_at = clock env 301 \<rparr>]
             | t # ts \<Rightarrow>
                 ts = [] \<and>
                 (\<not> fails env UpdateTransaction \<longrightarrow>
                  filter (matches request)
                      (transactions (db (fst (record_transaction env request w)))) =
                    [t\<lparr> tx_status := TxCompleted,
                        description := completed_description env request,
                        tx_updated_at := clock env 281 \<rparr>]
                  \<and> map tx_id (transactions (db (fst (record_transaction env request w)))) =
                      map tx_id (transactions (db w)))))"
proof -
  have u: "ledger_unique (transactions (db (run calls w)))"
    by (rule run_unique[OF assms])
  have le: "length (filter (matches request) (transactions (db w))) \<le> 1"
    by (rule ledger_unique_matches_le1[OF assms])
  show ?thesis
  proof (cases "filter (matches request) (transactions (db w))")
    case Nil
    then show ?thesis
      using u ledger_unique_matches_le1[OF u, of request] record_transaction_absent[of env request w]
      by simp
  next
    case (Cons t ts)
    with le have ts: "ts = []" by simp
    with Cons show ?thesis
      using u ledger_unique_matches_le1[OF u, of request] record_transaction_found[of env request w t]
      by simp
  qed
qed

text \<open>A ledger with one pending row for the request, completed twice.\<close>

theorem ledger_write_is_upsert_witness:
  "ledger_unique (transactions (db (world_with 1000 [pending_entry (- 500)])))
   \<and> ledger_unique (transactions (db (run [(env_ok, request_500, ActCompleted),
          (env_ok, request_500, ActCompleted)] (world_with 1000 [pending_entry (- 500)]))))
   \<and> length (filter (matches request_500) (transactions (db (run [(env_ok, request_500, ActCompleted),
          (env_ok, request_500, ActCompleted)] (world_with 1000 [pending_entry (- 500)]))))) \<le> 1
   \<and> map tx_status (filter (matches request_500) (transactions (db (fst (record_transaction env_ok request_500
          (world_with 1000 [pending_entry (- 500)])))))) = [TxCompleted]"
proof -
  let ?w = "world_with 1000 [pending_entry (- 500)]"
  have h: "ledger_unique (transactions (db ?w))"
    by (simp add: ledger_unique_def world_with_def pending_entry_def)
  have f: "filter (matches request_500) (transactions (db ?w)) = [pending_entry (- 500)]"
    "\<not> fails env_ok CheckTransaction" "\<not> fails env_ok UpdateTransaction"
    by (simp_all add: eval_defs)
  from ledger_write_is_upsert[OF h, of "[(env_ok, request_500, ActCompleted),
          (env_ok, request_500, ActCompleted)]" request_500 env_ok] h f
  show ?thesis by simp
qed




text \<open>
  Claim C6. Every mutating operation should ask \<^verbatim>\<open>checkAdminStatus\<close> first and refuse when
  it is false. The two fetches do ask (lines 92 and 143); \<^verbatim>\<open>handleRequestAction\<close> does not:
  for a signed-in user who is no admin the check is false, and the handler still completes
  the request and deducts the points.
\<close>

theorem non_admin_completes_request:
  "\<not> checkAdminStatus env_visitor (db (world_with 1000 []))
   \<and> alerts (handleRequestAction env_visitor request_500
        ActCompleted (world_with 1000 [])) = [SuccessAlert ActCompleted]
   \<and> map req_status (redemption_requests (db (handleRequestAction
        env_visitor request_500 ActCompleted (world_with 1000 [])))) =
       [Completed]
   \<and> map available_points (user_profiles (db (handleRequestAction
        env_visitor request_500 ActCompleted (world_with 1000 [])))) =
       [500]"
  by (simp add: eval_defs checkAdminStatus_def)

text \<open>
  Claim C7. A rejection never touches a balance and never adds or removes a ledger row:
  the rows keep their keys and order, and the rows of other requests are unchanged. When
  the rejection raises the success alert, every redeemed row of the request has status
  failed. When the request has no such row, the ledger is unchanged, and this is no error:
  with the two store requests answered, the success alert is raised.
\<close>

theorem rejection_only_marks_existing_entries:
  assumes "w' = handleRequestAction env request ActRejected w"
  shows "user_profiles (db w') = user_profiles (db w)
       \<and> map tx_id (transactions (db w')) = map tx_id (transactions (db w))
       \<and> filter (\<lambda>t. \<not> matches request t) (transactions (db w')) =
           filter (\<lambda>t. \<not> matches request t) (transactions (db w))
       \<and> length (filter (matches request) (transactions (db w'))) =
           length (filter (matches request) (transactions (db w)))
       \<and> (SuccessAlert ActRejected \<in> set (new_alerts w w') \<longrightarrow>
            (\<forall>t \<in> set (transactions (db w')). matches request t \<longrightarrow> tx_status t = TxFailed))
       \<and> (filter (matches request) (transactions (db w)) = [] \<longrightarrow>
            transactions (db w') = transactions (db w))
       \<and> (filter (matches request) (transactions (db w)) = [] \<and> \<not> processingAction w
            \<and> \<not> fails env UpdateRequest \<and> \<not> fails env RejectTransaction \<longrightarrow>
            take 1 (new_alerts w w') = [SuccessAlert ActRejected])"
proof (cases "processingAction w")
  case True
  then show ?thesis using assms by (simp add: handler_busy new_alerts_def)
next
  case False
  let ?w0 = "w\<lparr>processingAction := True\<rparr>"
  let ?f = "\<lambda>t. t\<lparr> tx_status := TxFailed, description := rejected_description env request,
                    tx_updated_at := clock env 321 \<rparr>"
  have dbw': "db w' = db (fst (try_block env request ActRejected ?w0))"
    using False assms by (simp add: handler_db)
  have al: "new_alerts w w' =
     (case snd (try_block env request ActRejected ?w0) of
        Some e \<Rightarrow> [ErrorAlert ActRejected e]
      | None \<Rightarrow> if fails env Refresh then [SuccessAlert ActRejected, ErrorAlert ActRejected (StoreError Refresh)]
                else [SuccessAlert ActRejected])"
    using False assms by (simp add: handler_alerts)
  have prof: "user_profiles (db w') = user_profiles (db w)"
    by (simp add: dbw' try_block_alt update_request_tables reject_transaction_tables)
  consider (same) "transactions (db w') = transactions (db w)"
      "snd (try_block env request ActRejected ?w0) \<noteq> None"
      "fails env UpdateRequest \<or> fails env RejectTransaction"
    | (upd) "transactions (db w') = update_where (matches request) ?f (transactions (db w))"
      "\<not> fails env UpdateRequest" "\<not> fails env RejectTransaction"
      "snd (try_block env request ActRejected ?w0) = None"
    by (cases "fails env UpdateRequest"; cases "fails env RejectTransaction")
       (simp_all add: dbw' try_block_alt update_request_def reject_transaction_def log_error_def)
  then show ?thesis
  proof cases
    case same
    then show ?thesis using prof al by (auto split: option.splits)
  next
    case upd
    have 1: "map tx_id (transactions (db w')) = map tx_id (transactions (db w))"
      by (simp add: upd(1) map_update_where)
    have 2: "filter (\<lambda>t. \<not> matches request t) (transactions (db w')) =
           filter (\<lambda>t. \<not> matches request t) (transactions (db w))"
      unfolding upd(1) by (subst filter_update_where, simp) (rule update_where_none, simp)
    have 3: "filter (matches request) (transactions (db w')) =
           map ?f (filter (matches request) (transactions (db w)))"
      unfolding upd(1) by (subst filter_update_where, simp) (rule update_where_all, simp)
    have 4: "\<forall>t \<in> set (transactions (db w')). matches request t \<longrightarrow> tx_status t = TxFailed"
    proof (intro ballI impI)
      fix t assume "t \<in> set (transactions (db w'))" "matches request t"
      then have "t \<in> set (filter (matches request) (transactions (db w')))" by simp
      then show "tx_status t = TxFailed" unfolding 3 by auto
    qed
    have 5: "filter (matches request) (transactions (db w)) = [] \<Longrightarrow>
            transactions (db w') = transactions (db w)"
      by (simp add: upd(1) update_where_none filter_empty_conv)
    show ?thesis using prof 1 2 3 4 5 al upd(4) by simp
  qed
qed

text \<open>A rejection with one pending ledger row, and one with an empty ledger.\<close>

theorem rejection_only_marks_existing_entries_witness:
  "SuccessAlert ActRejected \<in> set (new_alerts (world_with 1000 [pending_entry (- 500)])
      (handleRequestAction env_ok request_500 ActRejected (world_with 1000 [pending_entry (- 500)])))
   \<and> map tx_status (transactions (db
        (handleRequestAction env_ok request_500 ActRejected (world_with 1000 [pending_entry (- 500)])))) =
       [TxFailed]
   \<and> user_profiles (db
        (handleRequestAction env_ok request_500 ActRejected (world_with 1000 [pending_entry (- 500)]))) =
       user_profiles (db (world_with 1000 [pending_entry (- 500)]))
   \<and> filter (matches request_500) (transactions (db (world_with 1000 []))) = []
   \<and> transactions (db (handleRequestAction env_ok request_500 ActRejected (world_with 1000 []))) = []
   \<and> take 1 (new_alerts (world_with 1000 [])
        (handleRequestAction env_ok request_500 ActRejected (world_with 1000 []))) =
       [SuccessAlert ActRejected]"
proof -
  let ?w = "world_with 1000 [pending_entry (- 500)]"
  let ?v = "world_with 1000 []"
  have a: "SuccessAlert ActRejected \<in> set (new_alerts ?w
      (handleRequestAction env_ok request_500 ActRejected ?w))"
    by (simp add: eval_defs)
  have l: "length (transactions (db (handleRequestAction env_ok request_500 ActRejected ?w))) = 1"
    "\<forall>t \<in> set (transactions (db (handleRequestAction env_ok request_500 ActRejected ?w))). matches request_500 t"
    by (simp_all add: eval_defs)
  have n: "filter (matches request_500) (transactions (db ?v)) = []" "\<not> processingAction ?v"
    "\<not> fails env_ok UpdateRequest" "\<not> fails env_ok RejectTransaction"
    "transactions (db ?v) = []"
    by (simp_all add: eval_defs)
  from rejection_only_marks_existing_entries[OF refl, of env_ok request_500 ?w] a
  have 1: "\<forall>t \<in> set (transactions (db (handleRequestAction env_ok request_500 ActRejected ?w))).
            tx_status t = TxFailed"
    and 2: "user_profiles (db (handleRequestAction env_ok request_500 ActRejected ?w)) = user_profiles (db ?w)"
    using l(2) by auto
  from l(1) 1 have 3: "map tx_status (transactions (db
        (handleRequestAction env_ok request_500 ActRejected ?w))) = [TxFailed]"
    by (cases "transactions (db (handleRequestAction env_ok request_500 ActRejected ?w))") auto
  from rejection_only_marks_existing_entries[OF refl, of env_ok request_500 ?v] n
  have 4: "transactions (db (handleRequestAction env_ok request_500 ActRejected ?v)) = []"
    "take 1 (new_alerts ?v (handleRequestAction env_ok request_500 ActRejected ?v)) = [SuccessAlert ActRejected]"
    by auto
  from a 2 3 4 n(1) show ?thesis by simp
qed

text \<open>
  Claim C8. From any list, inserting a record, updating it and deleting it leaves no entry
  with its id. Inserting it, marking it read and updating it leaves it at the head with
  \<open>read = True\<close> and the title, message and type of the update. An update keeps the read
  flag, the id and the creation time of every position, and every entry with the id of the
  update carries its title, message and type.
\<close>

theorem merge_sequences:
  assumes "raw_id upd = raw_id a" and "raw_id old = raw_id a"
  shows "(\<forall>n \<in> set (on_change (DELETE old) (on_change (UPDATE upd) (on_change (INSERT a) prev))).
            notif_id n \<noteq> raw_id a)
     \<and> on_change (UPDATE upd) (markNotificationAsRead (raw_id a) (on_change (INSERT a) prev)) =
         \<lparr> notif_id = raw_id a, title = raw_title upd, message = raw_message upd,
           notif_type = getNotificationType (priority upd),
           notif_created_at = raw_created_at a, read = True \<rparr>
         # on_change (UPDATE upd) (markNotificationAsRead (raw_id a) prev)
     \<and> map read (on_change (UPDATE upd) xs) = map read xs
     \<and> map notif_id (on_change (UPDATE upd) xs) = map notif_id xs
     \<and> map notif_created_at (on_change (UPDATE upd) xs) = map notif_created_at xs
     \<and> (\<forall>n \<in> set (on_change (UPDATE upd) xs). notif_id n = raw_id upd \<longrightarrow>
           title n = raw_title upd \<and> message n = raw_message upd
           \<and> notif_type n = getNotificationType (priority upd))"
  using assms
  by (auto simp: markNotificationAsRead_def newNotification_def)

text \<open>Both sequences from the empty list.\<close>

theorem merge_sequences_witness:
  "raw_id (notif_A\<lparr> raw_title := ''Postponed'' \<rparr>) = raw_id notif_A
   \<and> list_all (\<lambda>n. notif_id n \<noteq> raw_id notif_A)
         (on_change (DELETE notif_A)
            (on_change (UPDATE (notif_A\<lparr> raw_title := ''Postponed'' \<rparr>))
               (on_change (INSERT notif_A) [])))
   \<and> on_change (DELETE notif_A)
          (on_change (UPDATE (notif_A\<lparr> raw_title := ''Postponed'' \<rparr>))
             (on_change (INSERT notif_A) [])) = []
   \<and> map read (on_change (UPDATE (notif_A\<lparr> raw_title := ''Postponed'' \<rparr>))
        (markNotificationAsRead (raw_id notif_A) (on_change (INSERT notif_A) []))) = [True]
   \<and> map title (on_change (UPDATE (notif_A\<lparr> raw_title := ''Postponed'' \<rparr>))
        (markNotificationAsRead (raw_id notif_A) (on_change (INSERT notif_A) []))) = [''Postponed'']"
proof -
  let ?upd = "notif_A\<lparr> raw_title := ''Postponed'' \<rparr>"
  have h1: "raw_id ?upd = raw_id notif_A" by simp
  have h2: "raw_id notif_A = raw_id notif_A" by (rule refl)
  have m1: "list_all (\<lambda>n. notif_id n \<noteq> raw_id notif_A)
         (on_change (DELETE notif_A) (on_change (UPDATE ?upd) (on_change (INSERT notif_A) [])))"
    by (rule conjunct1[OF merge_sequences[OF h1 h2, of "[]" "[]"], unfolded Ball_set])
  have d: "on_change (DELETE notif_A) (on_change (UPDATE ?upd) (on_change (INSERT notif_A) [])) = []"
    by (simp add: newNotification_def)
  have r: "map read (on_change (UPDATE ?upd)
        (markNotificationAsRead (raw_id notif_A) (on_change (INSERT notif_A) []))) = [True]"
    by (simp add: markNotificationAsRead_def newNotification_def)
  have t: "map title (on_change (UPDATE ?upd)
        (markNotificationAsRead (raw_id notif_A) (on_change (INSERT notif_A) []))) = [''Postponed'']"
    by (simp add: markNotificationAsRead_def newNotification_def)
  show ?thesis
    by (intro conjI) (rule h1, rule m1, rule d, rule r, rule t)
qed

text \<open>
  Claim C9, as the code has it. The UPDATE branch maps over the list and has no insert:
  an update whose id is not in the list leaves the list as it was.
\<close>

theorem update_of_absent_id_changes_nothing:
  "\<forall>n \<in> set prev. notif_id n \<noteq> raw_id new \<Longrightarrow> on_change (UPDATE new) prev = prev"
  by (induction prev) auto

text \<open>C9 as stated fails: after an update on the empty list the record is not present.\<close>

theorem update_of_absent_id_counterexample:
  "on_change (UPDATE notif_A) [] = []"
  by simp

text \<open>An update for \<open>A\<close> on a list that holds only \<open>B\<close>.\<close>

theorem update_of_absent_id_changes_nothing_witness:
  "list_all (\<lambda>n. notif_id n \<noteq> raw_id notif_A) [newNotification (notif_A\<lparr> raw_id := ''B'' \<rparr>)]
   \<and> on_change (UPDATE notif_A) [newNotification (notif_A\<lparr> raw_id := ''B'' \<rparr>)] =
       [newNotification (notif_A\<lparr> raw_id := ''B'' \<rparr>)]"
proof -
  have h: "\<forall>n \<in> set [newNotification (notif_A\<lparr> raw_id := ''B'' \<rparr>)]. notif_id n \<noteq> raw_id notif_A"
    by (simp add: newNotification_def notif_A_def)
  show ?thesis
    by (intro conjI) (rule h[unfolded Ball_set], rule update_of_absent_id_changes_nothing[OF h])
qed

text \<open>
  Claim C10. \<^verbatim>\<open>getNotificationType\<close> is total with three values: \<open>critical\<close> gives
  \<open>Error\<close>, \<open>high\<close> gives \<open>Warning\<close>, anything else \<open>Info\<close>. It never gives \<open>Success\<close>:
  a new notification is never of that type, and an entry of that type after an INSERT or
  an UPDATE was in the list before (and, for an UPDATE, is not the updated one).
\<close>

theorem severity_mapping_three_valued:
  "getNotificationType ''critical'' = Error
   \<and> getNotificationType ''high'' = Warning
   \<and> (p \<noteq> ''critical'' \<and> p \<noteq> ''high'' \<longrightarrow> getNotificationType p = Info)
   \<and> getNotificationType p \<in> {Error, Warning, Info}
   \<and> notif_type (newNotification new) \<noteq> Success
   \<and> (\<forall>n \<in> set (on_change (INSERT new) prev). notif_type n = Success \<longrightarrow> n \<in> set prev)
   \<and> (\<forall>n \<in> set (on_change (UPDATE new) prev). notif_type n = Success \<longrightarrow> n \<in> set prev \<and> notif_id n \<noteq> raw_id new)"
  by (auto simp: newNotification_def split: if_splits)

text \<open>The priority \<open>low\<close>, and the record \<open>A\<close> of priority \<open>high\<close>.\<close>

theorem severity_mapping_three_valued_witness:
  "''low'' \<noteq> ''critical'' \<and> ''low'' \<noteq> ''high'' \<and> getNotificationType ''low'' = Info
   \<and> notif_type (newNotification notif_A) = Warning
   \<and> list_all (\<lambda>n. notif_type n \<noteq> Success) (on_change (UPDATE notif_A) [newNotification notif_A])"
proof -
  have h: "''low'' \<noteq> ''critical'' \<and> ''low'' \<noteq> ''high''" by simp
  have p: "\<forall>n \<in> set [newNotification notif_A]. notif_id n = raw_id notif_A"
    by (simp add: newNotification_def)
  from severity_mapping_three_valued[of "''low''" notif_A "[newNotification notif_A]"] h p
  show ?thesis by (auto simp: newNotification_def notif_A_def)
qed

end
